theory Spec2Isabelle
  imports Main
begin

section \<open>Data model\<close>

text \<open>
  The two source files are the session context \<^verbatim>\<open>components/auth-provider.tsx\<close>
  (\<^verbatim>\<open>AuthProvider\<close>) and the authentication dialog \<^verbatim>\<open>AuthModal\<close>. Both are React
  components: their state lives in \<^verbatim>\<open>useState\<close> cells, their operations are closures
  that read the cells of the current render and write them through setters. A handler
  is modelled as a function from the application state at the render in which it was
  created to the state after all its setter calls have been applied.

  JavaScript strings are sequences of code units; \<^typ>\<open>string\<close> stands for them, one
  \<^typ>\<open>char\<close> per code unit, and \<^verbatim>\<open>length\<close>, \<^verbatim>\<open>slice\<close> and the regular expression
  \<^verbatim>\<open>/\D/g\<close> all work unit by unit. A string is falsy exactly when it is empty.
\<close>

datatype tab = Login | Register

datatype wizard_step = Form | Otp

datatype userRole = Patient | Doctor

text \<open>A JavaScript value as it occurs in a profile payload: a string or a number.\<close>

datatype jsval = JStr string | JNum int

type_synonym jsobject = "(string \<times> jsval) list"

text \<open>
  Modelled from the spec: the type \<^verbatim>\<open>AuthUser\<close> is declared in \<^verbatim>\<open>lib/auth\<close>, which is
  not among the sources. The spec gives it the attributes id, email and role plus
  profile data returned by the backend.
\<close>

record authUser =
  user_id :: string
  user_email :: string
  user_role :: userRole
  user_profile :: jsobject

text \<open>
  The object a backend call resolves to: \<^verbatim>\<open>{ success, message, user?, token? }\<close>.
  The optional fields are absent (\<open>None\<close>) in the results of the calls that do not
  produce them.
\<close>

record auth_result =
  success :: bool
  message :: string
  res_user :: "authUser option"
  res_token :: "string option"

text \<open>An awaited backend promise either resolves to a value or rejects with an error.\<close>

type_synonym exn = string

datatype 'a outcome = Returns 'a | Throws exn

text \<open>The state cells of \<^verbatim>\<open>AuthModal\<close>, in the order of their \<^verbatim>\<open>useState\<close> calls, and
  the number of interval timers started by \<^verbatim>\<open>setInterval\<close> that are not yet cleared.\<close>

record dialog =
  activeTab :: tab
  step :: wizard_step
  email :: string
  otp :: string
  isLoading :: bool
  timer :: int
  fullName :: string
  role :: userRole
  phone :: string
  dateOfBirth :: string
  address :: string
  specialization :: string
  licenseNumber :: string
  experience :: string
  intervals :: nat

text \<open>The state cells of \<^verbatim>\<open>AuthProvider\<close>.\<close>

record session =
  user :: "authUser option"
  authIsLoading :: bool

text \<open>The notifications the dialog emits, named by their titles; a constructor carries
  the description where the source takes it from a result.\<close>

datatype toast =
    EmailRequired
  | NameRequired
  | RegistrationFailed string
  | RegistrationSuccessful
  | LoginFailed string
  | OTPSent
  | ErrorTryAgain
  | InvalidOTP string
  | WelcomeRegistered
  | WelcomeAuthenticated
  | VerificationFailed

datatype redirect = RouterPush string | WindowLocation string

text \<open>Everything a handler does to its collaborators, in the order it does it.\<close>

datatype event =
    CallGetCurrentUser
  | CallRegisterUser string string userRole jsobject
  | CallVerifyRegistration string string
  | CallSendOTP string
  | CallVerifyOTPAndLogin string string
  | CallLogout
  | CallUpdateProfile string jsobject
  | ConsoleError string exn
  | Toast toast
  | OnOpenChange bool
  | SetTimeout redirect nat

fun is_backend_call :: "event \<Rightarrow> bool" where
  "is_backend_call CallGetCurrentUser = True"
| "is_backend_call (CallRegisterUser e n r p) = True"
| "is_backend_call (CallVerifyRegistration e c) = True"
| "is_backend_call (CallSendOTP e) = True"
| "is_backend_call (CallVerifyOTPAndLogin e c) = True"
| "is_backend_call CallLogout = True"
| "is_backend_call (CallUpdateProfile i u) = True"
| "is_backend_call (ConsoleError l e) = False"
| "is_backend_call (Toast t) = False"
| "is_backend_call (OnOpenChange b) = False"
| "is_backend_call (SetTimeout r n) = False"

text \<open>The whole application: the dialog, the session context, the browser's
  \<^verbatim>\<open>localStorage\<close> and the trace of events so far.\<close>

record app =
  dlg :: dialog
  auth :: session
  localStorage :: "string \<rightharpoonup> string"
  trace :: "event list"

definition backend_calls :: "app \<Rightarrow> event list" where
  "backend_calls a = filter is_backend_call (trace a)"

section \<open>Control flow: await, try, catch, finally\<close>

text \<open>A piece of handler code takes the state and either completes with a value or
  throws; \<open>Inl\<close> is an exception on its way to the caller.\<close>

type_synonym 'a prog = "app \<Rightarrow> (exn + 'a) \<times> app"

definition ret :: "'a \<Rightarrow> 'a prog" where
  "ret x a = (Inr x, a)"

definition bnd :: "'a prog \<Rightarrow> ('a \<Rightarrow> 'b prog) \<Rightarrow> 'b prog" where
  "bnd m f a = (case m a of (Inl e, a') \<Rightarrow> (Inl e, a') | (Inr x, a') \<Rightarrow> f x a')"

definition try_catch :: "'a prog \<Rightarrow> (exn \<Rightarrow> 'a prog) \<Rightarrow> 'a prog" where
  "try_catch m h a = (case m a of (Inl e, a') \<Rightarrow> h e a' | (Inr x, a') \<Rightarrow> (Inr x, a'))"

definition try_finally :: "'a prog \<Rightarrow> unit prog \<Rightarrow> 'a prog" where
  "try_finally m fin a =
     (case m a of (r, a') \<Rightarrow>
        (case fin a' of (Inl e, a'') \<Rightarrow> (Inl e, a'') | (Inr u, a'') \<Rightarrow> (r, a'')))"

definition emit :: "event \<Rightarrow> unit prog" where
  "emit ev a = (Inr (), a\<lparr>trace := trace a @ [ev]\<rparr>)"

text \<open>\<^verbatim>\<open>await authService.f(args)\<close>: the call is made, then its promise settles.\<close>

definition await :: "event \<Rightarrow> 'a outcome \<Rightarrow> 'a prog" where
  "await call out a =
     (case out of
        Returns x \<Rightarrow> (Inr x, a\<lparr>trace := trace a @ [call]\<rparr>)
      | Throws e \<Rightarrow> (Inl e, a\<lparr>trace := trace a @ [call]\<rparr>))"

definition exec :: "'a prog \<Rightarrow> app \<Rightarrow> app" where
  "exec m a = snd (m a)"

definition result :: "'a prog \<Rightarrow> app \<Rightarrow> exn + 'a" where
  "result m a = fst (m a)"

section \<open>Session context (\<^verbatim>\<open>AuthProvider\<close>)\<close>

definition setUser :: "authUser option \<Rightarrow> unit prog" where
  "setUser u a = (Inr (), a\<lparr>auth := (auth a)\<lparr>user := u\<rparr>\<rparr>)"

definition setAuthIsLoading :: "bool \<Rightarrow> unit prog" where
  "setAuthIsLoading b a = (Inr (), a\<lparr>auth := (auth a)\<lparr>authIsLoading := b\<rparr>\<rparr>)"

text \<open>\<^verbatim>\<open>localStorage.setItem(k, v)\<close> is a call into the browser: it either stores the
  value or throws (quota exceeded, storage denied) and stores nothing. Which of the
  two happens is an input, like the outcome of a backend call.\<close>

definition localStorage_setItem :: "string \<Rightarrow> string \<Rightarrow> unit outcome \<Rightarrow> unit prog" where
  "localStorage_setItem k v st a =
     (case st of
        Returns x \<Rightarrow> (Inr (), a\<lparr>localStorage := (localStorage a)(k \<mapsto> v)\<rparr>)
      | Throws e \<Rightarrow> (Inl e, a))"

definition failure :: "string \<Rightarrow> auth_result" where
  "failure m = \<lparr>success = False, message = m, res_user = None, res_token = None\<rparr>"

definition initializeAuth :: "authUser option outcome \<Rightarrow> unit prog" where
  "initializeAuth out =
     try_finally
       (try_catch
          (bnd (await CallGetCurrentUser out) (\<lambda>currentUser.
             case currentUser of Some u \<Rightarrow> setUser (Some u) | None \<Rightarrow> ret ()))
          (\<lambda>error. emit (ConsoleError ''Error initializing auth:'' error)))
       (setAuthIsLoading False)"

definition registerUser ::
  "string \<Rightarrow> string \<Rightarrow> userRole \<Rightarrow> jsobject \<Rightarrow> auth_result outcome \<Rightarrow> auth_result prog" where
  "registerUser em fn r profile out =
     try_catch
       (bnd (await (CallRegisterUser em fn r profile) out) (\<lambda>res. ret res))
       (\<lambda>error. bnd (emit (ConsoleError ''Registration error:'' error)) (\<lambda>u.
          ret (failure ''Registration failed. Please try again.'')))"

text \<open>\<^verbatim>\<open>result.success && result.user && result.token\<close>: an object is truthy when it is
  there, a string when it is there and not empty. The last argument is the outcome of
  the \<^verbatim>\<open>localStorage.setItem\<close> call, should the call be made.\<close>

definition verifyRegistration ::
  "string \<Rightarrow> string \<Rightarrow> auth_result outcome \<Rightarrow> unit outcome \<Rightarrow> auth_result prog" where
  "verifyRegistration em code out st =
     try_catch
       (bnd (await (CallVerifyRegistration em code) out) (\<lambda>res.
          bnd (case (res_user res, res_token res) of
                 (Some u, Some t) \<Rightarrow>
                   if success res \<and> t \<noteq> [] then
                     bnd (setUser (Some u)) (\<lambda>x. localStorage_setItem ''healthvault_token'' t st)
                   else ret ()
               | _ \<Rightarrow> ret ())
              (\<lambda>x. ret res)))
       (\<lambda>error. bnd (emit (ConsoleError ''Verify registration error:'' error)) (\<lambda>u.
          ret (failure ''Verification failed. Please try again.'')))"

definition sendOTP :: "string \<Rightarrow> auth_result outcome \<Rightarrow> auth_result prog" where
  "sendOTP em out =
     try_catch
       (bnd (await (CallSendOTP em) out) (\<lambda>res. ret res))
       (\<lambda>error. bnd (emit (ConsoleError ''Send OTP error:'' error)) (\<lambda>u.
          ret (failure ''Failed to send OTP. Please try again.'')))"

definition verifyOTPAndLogin :: "string \<Rightarrow> string \<Rightarrow> auth_result outcome \<Rightarrow> auth_result prog" where
  "verifyOTPAndLogin em code out =
     try_catch
       (bnd (await (CallVerifyOTPAndLogin em code) out) (\<lambda>res.
          bnd (case res_user res of
                 Some u \<Rightarrow> if success res then setUser (Some u) else ret ()
               | None \<Rightarrow> ret ())
              (\<lambda>x. ret \<lparr>success = success res, message = message res,
                        res_user = None, res_token = None\<rparr>)))
       (\<lambda>error. bnd (emit (ConsoleError ''Login error:'' error)) (\<lambda>u.
          ret (failure ''Login failed. Please try again.'')))"

definition logout :: "unit outcome \<Rightarrow> unit prog" where
  "logout out =
     try_catch
       (bnd (await CallLogout out) (\<lambda>x. setUser None))
       (\<lambda>error. emit (ConsoleError ''Logout error:'' error))"

definition refreshSession :: "authUser option outcome \<Rightarrow> unit prog" where
  "refreshSession out =
     try_catch
       (bnd (await CallGetCurrentUser out) (\<lambda>currentUser. setUser currentUser))
       (\<lambda>error. bnd (emit (ConsoleError ''Refresh session error:'' error)) (\<lambda>u. setUser None))"

text \<open>\<^verbatim>\<open>!user?.id\<close> holds when there is no user or its id is empty. The second outcome
  is that of the \<^verbatim>\<open>getCurrentUser\<close> call made by \<^verbatim>\<open>refreshSession\<close>.\<close>

definition updateProfile ::
  "jsobject \<Rightarrow> auth_result outcome \<Rightarrow> authUser option outcome \<Rightarrow> auth_result prog" where
  "updateProfile updates out out_refresh a =
     try_catch
       (case user (auth a) of
          None \<Rightarrow> ret (failure ''No user logged in'')
        | Some u \<Rightarrow>
            if user_id u = [] then ret (failure ''No user logged in'')
            else
              bnd (await (CallUpdateProfile (user_id u) updates) out) (\<lambda>res.
                bnd (if success res then refreshSession out_refresh else ret ())
                    (\<lambda>x. ret res)))
       (\<lambda>error. bnd (emit (ConsoleError ''Update profile error:'' error)) (\<lambda>u.
          ret (failure ''Failed to update profile. Please try again.'')))
       a"

section \<open>Authentication dialog (\<^verbatim>\<open>AuthModal\<close>)\<close>

definition set_dlg :: "(dialog \<Rightarrow> dialog) \<Rightarrow> unit prog" where
  "set_dlg f a = (Inr (), a\<lparr>dlg := f (dlg a)\<rparr>)"

definition toast :: "toast \<Rightarrow> unit prog" where
  "toast t = emit (Toast t)"

text \<open>
  \<^verbatim>\<open>onOpenChange\<close> is a prop: the callback of the parent component. \<^verbatim>\<open>AuthModal\<close>
  hands it to \<^verbatim>\<open><Dialog open={open} onOpenChange={onOpenChange}>\<close> as it is, in both
  steps, so a close requested by the user (close button, escape key, click outside)
  is this call and nothing else: no setter of \<^verbatim>\<open>AuthModal\<close> runs.
\<close>

definition onOpenChange :: "bool \<Rightarrow> unit prog" where
  "onOpenChange b = emit (OnOpenChange b)"

text \<open>The state of a freshly mounted dialog: the initial values of the
  \<^verbatim>\<open>useState\<close> cells.\<close>

definition initial_dialog :: "tab \<Rightarrow> dialog" where
  "initial_dialog defaultTab =
     \<lparr>activeTab = defaultTab, step = Form, email = [], otp = [], isLoading = False,
      timer = 0, fullName = [], role = Patient, phone = [], dateOfBirth = [],
      address = [], specialization = [], licenseNumber = [], experience = [],
      intervals = 0\<rparr>"

definition resetForm :: "unit prog" where
  "resetForm =
     bnd (set_dlg (\<lambda>d. d\<lparr>step := Form\<rparr>)) (\<lambda>u.
     bnd (set_dlg (\<lambda>d. d\<lparr>email := []\<rparr>)) (\<lambda>u.
     bnd (set_dlg (\<lambda>d. d\<lparr>otp := []\<rparr>)) (\<lambda>u.
     bnd (set_dlg (\<lambda>d. d\<lparr>fullName := []\<rparr>)) (\<lambda>u.
     bnd (set_dlg (\<lambda>d. d\<lparr>phone := []\<rparr>)) (\<lambda>u.
     bnd (set_dlg (\<lambda>d. d\<lparr>dateOfBirth := []\<rparr>)) (\<lambda>u.
     bnd (set_dlg (\<lambda>d. d\<lparr>address := []\<rparr>)) (\<lambda>u.
     bnd (set_dlg (\<lambda>d. d\<lparr>specialization := []\<rparr>)) (\<lambda>u.
     bnd (set_dlg (\<lambda>d. d\<lparr>licenseNumber := []\<rparr>)) (\<lambda>u.
     bnd (set_dlg (\<lambda>d. d\<lparr>experience := []\<rparr>)) (\<lambda>u.
          set_dlg (\<lambda>d. d\<lparr>timer := 0\<rparr>)))))))))))"

text \<open>
  The profile object built in \<^verbatim>\<open>handleSendOTP\<close>. \<^verbatim>\<open>parseInt\<close> is the JavaScript
  built-in, taken as a parameter: \<open>None\<close> is \<^verbatim>\<open>NaN\<close>, and \<^verbatim>\<open>parseInt(experience) || 0\<close>
  replaces \<^verbatim>\<open>NaN\<close> (and 0) by 0.
\<close>

definition profile_of :: "(string \<Rightarrow> int option) \<Rightarrow> dialog \<Rightarrow> jsobject" where
  "profile_of parseInt d =
     (if role d = Patient then
        [(''phone'', JStr (phone d)), (''dateOfBirth'', JStr (dateOfBirth d)),
         (''address'', JStr (address d))]
      else
        [(''phone'', JStr (phone d)), (''specialization'', JStr (specialization d)),
         (''licenseNumber'', JStr (licenseNumber d)),
         (''experience'', JNum (case parseInt (experience d) of None \<Rightarrow> 0 | Some n \<Rightarrow> n))])"

text \<open>\<^verbatim>\<open>setInterval\<close> starts one more interval timer; its callback is \<open>tick\<close> below.\<close>

definition setInterval :: "unit prog" where
  "setInterval = set_dlg (\<lambda>d. d\<lparr>intervals := Suc (intervals d)\<rparr>)"

text \<open>The code after the two branches of \<^verbatim>\<open>handleSendOTP\<close>, reached when neither
  returned early.\<close>

definition start_otp_step :: "unit prog" where
  "start_otp_step =
     bnd (set_dlg (\<lambda>d. d\<lparr>step := Otp\<rparr>)) (\<lambda>u.
     bnd (set_dlg (\<lambda>d. d\<lparr>timer := 60\<rparr>)) (\<lambda>u. setInterval))"

definition handleSendOTP ::
  "(string \<Rightarrow> int option) \<Rightarrow> bool \<Rightarrow> auth_result outcome \<Rightarrow> unit prog" where
  "handleSendOTP parseInt isLogin out a =
     (let d = dlg a in
      if email d = [] then toast EmailRequired a
      else if \<not> isLogin \<and> fullName d = [] then toast NameRequired a
      else
        bnd (set_dlg (\<lambda>d. d\<lparr>isLoading := True\<rparr>)) (\<lambda>u.
          try_finally
            (try_catch
               (if \<not> isLogin then
                  bnd (registerUser (email d) (fullName d) (role d) (profile_of parseInt d) out)
                    (\<lambda>res.
                       if \<not> success res then
                         bnd (toast (RegistrationFailed (message res))) (\<lambda>u.
                              set_dlg (\<lambda>d. d\<lparr>isLoading := False\<rparr>))
                       else bnd (toast RegistrationSuccessful) (\<lambda>u. start_otp_step))
                else
                  bnd (sendOTP (email d) out)
                    (\<lambda>res.
                       if \<not> success res then
                         bnd (toast (LoginFailed (message res))) (\<lambda>u.
                              set_dlg (\<lambda>d. d\<lparr>isLoading := False\<rparr>))
                       else bnd (toast OTPSent) (\<lambda>u. start_otp_step)))
               (\<lambda>error. toast ErrorTryAgain))
            (set_dlg (\<lambda>d. d\<lparr>isLoading := False\<rparr>)))
          a)"

text \<open>
  The callback of an interval timer:
  \<^verbatim>\<open>setTimer(prev => { if (prev <= 1) { clearInterval(interval); return 0 } return prev - 1 })\<close>.
  It runs only while an interval timer is live.
\<close>

definition tick :: "app \<Rightarrow> app" where
  "tick a =
     (let d = dlg a in
      if intervals d = 0 then a
      else if timer d \<le> 1 then a\<lparr>dlg := d\<lparr>timer := 0, intervals := intervals d - 1\<rparr>\<rparr>
      else a\<lparr>dlg := d\<lparr>timer := timer d - 1\<rparr>\<rparr>)"

text \<open>The \<^verbatim>\<open>onChange\<close> of the code field:
  \<^verbatim>\<open>setOtp(e.target.value.replace(/\D/g, "").slice(0, 6))\<close>.\<close>

definition is_digit :: "char \<Rightarrow> bool" where
  "is_digit c = (c \<in> set ''0123456789'')"

definition otp_onChange :: "string \<Rightarrow> unit prog" where
  "otp_onChange v = set_dlg (\<lambda>d. d\<lparr>otp := take 6 (filter is_digit v)\<rparr>)"

definition dashboardPath :: "userRole \<Rightarrow> string" where
  "dashboardPath r = (if r = Doctor then ''/doctor/dashboard'' else ''/patient/dashboard'')"

text \<open>
  \<^verbatim>\<open>handleVerifyOTP\<close>. The closures given to \<^verbatim>\<open>setTimeout\<close> read \<^verbatim>\<open>role\<close> and
  \<^verbatim>\<open>authUser\<close> of the render in which the handler was created, that is, of the state
  the handler starts in.
\<close>

definition handleVerifyOTP :: "auth_result outcome \<Rightarrow> unit outcome \<Rightarrow> unit prog" where
  "handleVerifyOTP out st a =
     (let d = dlg a; authUser = user (auth a) in
      if length (otp d) \<noteq> 6 then toast (InvalidOTP ''Please enter a valid 6-digit OTP.'') a
      else
        bnd (set_dlg (\<lambda>d. d\<lparr>isLoading := True\<rparr>)) (\<lambda>u.
          try_finally
            (try_catch
               (if activeTab d = Register then
                  bnd (verifyRegistration (email d) (otp d) out st)
                    (\<lambda>res.
                       if success res then
                         bnd (toast WelcomeRegistered) (\<lambda>u.
                         bnd (onOpenChange False) (\<lambda>u.
                         bnd resetForm (\<lambda>u.
                              emit (SetTimeout (RouterPush (dashboardPath (role d))) 1000))))
                       else toast (InvalidOTP (message res)))
                else
                  bnd (verifyOTPAndLogin (email d) (otp d) out)
                    (\<lambda>res.
                       if success res then
                         bnd (toast WelcomeAuthenticated) (\<lambda>u.
                         bnd (onOpenChange False) (\<lambda>u.
                         bnd resetForm (\<lambda>u.
                              emit (SetTimeout
                                (WindowLocation
                                   (case authUser of
                                      Some usr \<Rightarrow> dashboardPath (user_role usr)
                                    | None \<Rightarrow> ''/patient/dashboard''))
                                1000))))
                       else toast (InvalidOTP (message res))))
               (\<lambda>error. toast VerificationFailed))
            (set_dlg (\<lambda>d. d\<lparr>isLoading := False\<rparr>)))
          a)"

definition handleResendOTP :: "(string \<Rightarrow> int option) \<Rightarrow> auth_result outcome \<Rightarrow> unit prog" where
  "handleResendOTP parseInt out a =
     (if timer (dlg a) = 0 then handleSendOTP parseInt (activeTab (dlg a) = Login) out a
      else (Inr (), a))"

definition handleBackToForm :: "unit prog" where
  "handleBackToForm =
     bnd (set_dlg (\<lambda>d. d\<lparr>step := Form\<rparr>)) (\<lambda>u.
     bnd (set_dlg (\<lambda>d. d\<lparr>otp := []\<rparr>)) (\<lambda>u.
          set_dlg (\<lambda>d. d\<lparr>timer := 0\<rparr>)))"

text \<open>
  One second of wall-clock time in the \<open>otp\<close> step with no other event: every
  interval timer that is live was started by \<^verbatim>\<open>setInterval(\<dots>, 1000)\<close>, so each of
  them runs its callback once.
\<close>

definition one_second :: "app \<Rightarrow> app" where
  "one_second a = (tick ^^ intervals (dlg a)) a"

text \<open>A code of exactly six digits.\<close>

definition six_digits :: "string \<Rightarrow> bool" where
  "six_digits s = (length s = 6 \<and> list_all is_digit s)"

text \<open>The events a handler run added to the trace.\<close>

definition emitted :: "app \<Rightarrow> app \<Rightarrow> event list" where
  "emitted a a' = drop (length (trace a)) (trace a')"

section \<open>Concrete states\<close>

text \<open>The application right after mounting, and the states of the spec's scenarios.\<close>

definition fresh_app :: "tab \<Rightarrow> app" where
  "fresh_app t =
     \<lparr>dlg = initial_dialog t, auth = \<lparr>user = None, authIsLoading = True\<rparr>,
      localStorage = Map.empty, trace = []\<rparr>"

definition dr_x :: authUser where
  "dr_x = \<lparr>user_id = ''u1'', user_email = ''d@x.com'', user_role = Doctor, user_profile = []\<rparr>"

definition logged_in :: app where
  "logged_in = (fresh_app Login)\<lparr>auth := \<lparr>user = Some dr_x, authIsLoading = False\<rparr>\<rparr>"

definition login_form :: app where
  "login_form = (fresh_app Login)\<lparr>dlg := (initial_dialog Login)\<lparr>email := ''a@b.com''\<rparr>\<rparr>"

definition register_form :: app where
  "register_form =
     (fresh_app Register)\<lparr>dlg := (initial_dialog Register)
        \<lparr>email := ''d@x.com'', fullName := ''Dr. X'', role := Doctor, experience := ''5''\<rparr>\<rparr>"

definition register_otp :: app where
  "register_otp =
     (fresh_app Register)\<lparr>dlg := (initial_dialog Register)
        \<lparr>step := Otp, email := ''d@x.com'', otp := ''000000'', timer := 42,
         fullName := ''Dr. X'', role := Doctor, intervals := 1\<rparr>\<rparr>"

definition accepted :: auth_result where
  "accepted = \<lparr>success = True, message = ''ok'', res_user = Some dr_x,
                res_token = Some ''tok-1''\<rparr>"

definition accepted_empty_token :: auth_result where
  "accepted_empty_token = \<lparr>success = True, message = ''ok'', res_user = Some dr_x,
                            res_token = Some []\<rparr>"

definition no_parse :: "string \<Rightarrow> int option" where
  "no_parse s = None"

text \<open>A registration is submitted and accepted; the user goes back at once and submits
  it again, and the backend accepts again before the first interval has run.\<close>

definition first_attempt :: app where
  "first_attempt = exec (handleSendOTP no_parse False (Returns accepted)) register_form"

definition went_back :: app where
  "went_back = exec handleBackToForm first_attempt"

definition second_attempt :: app where
  "second_attempt = exec (handleSendOTP no_parse False (Returns accepted)) went_back"

section \<open>What the handlers compute\<close>

lemmas prog_defs = ret_def bnd_def try_catch_def try_finally_def emit_def await_def
  exec_def result_def setUser_def setAuthIsLoading_def localStorage_setItem_def
  set_dlg_def toast_def onOpenChange_def

lemmas send_defs = handleSendOTP_def registerUser_def sendOTP_def start_otp_step_def
  setInterval_def failure_def

lemmas verify_defs = handleVerifyOTP_def verifyRegistration_def verifyOTPAndLogin_def
  resetForm_def failure_def dashboardPath_def

lemmas scenario_defs = fresh_app_def initial_dialog_def dr_x_def logged_in_def login_form_def
  register_form_def register_otp_def accepted_def accepted_empty_token_def no_parse_def

lemma resetForm_exec:
  "exec resetForm a =
     a\<lparr>dlg := (dlg a)\<lparr>step := Form, email := [], otp := [], fullName := [], phone := [],
        dateOfBirth := [], address := [], specialization := [], licenseNumber := [],
        experience := [], timer := 0\<rparr>\<rparr>"
  by (simp add: resetForm_def prog_defs)

lemma onOpenChange_exec:
  "exec (onOpenChange b) a = a\<lparr>trace := trace a @ [OnOpenChange b]\<rparr>"
  by (simp add: prog_defs)

lemma back_exec:
  "exec handleBackToForm x = x\<lparr>dlg := (dlg x)\<lparr>step := Form, otp := [], timer := 0\<rparr>\<rparr>"
  by (simp add: handleBackToForm_def prog_defs)

lemma onChange_exec:
  "exec (otp_onChange v) x = x\<lparr>dlg := (dlg x)\<lparr>otp := take 6 (filter is_digit v)\<rparr>\<rparr>"
  by (simp add: otp_onChange_def prog_defs)

text \<open>The five ways \<^verbatim>\<open>handleSendOTP\<close> can run: two validation failures, a backend
  success, a backend refusal and a backend exception (which the session context
  turns into a refusal with a generic message).\<close>

lemma handleSendOTP_exec:
  "exec (handleSendOTP pI isLogin out) a =
     (if email (dlg a) = [] then a\<lparr>trace := trace a @ [Toast EmailRequired]\<rparr>
      else if \<not> isLogin \<and> fullName (dlg a) = [] then a\<lparr>trace := trace a @ [Toast NameRequired]\<rparr>
      else
        (case out of
           Returns res \<Rightarrow>
             if success res then
               a\<lparr>dlg := (dlg a)\<lparr>step := Otp, isLoading := False, timer := 60,
                                 intervals := Suc (intervals (dlg a))\<rparr>,
                 trace := trace a @
                   [if isLogin then CallSendOTP (email (dlg a))
                    else CallRegisterUser (email (dlg a)) (fullName (dlg a)) (role (dlg a))
                           (profile_of pI (dlg a)),
                    Toast (if isLogin then OTPSent else RegistrationSuccessful)]\<rparr>
             else
               a\<lparr>dlg := (dlg a)\<lparr>isLoading := False\<rparr>,
                 trace := trace a @
                   [if isLogin then CallSendOTP (email (dlg a))
                    else CallRegisterUser (email (dlg a)) (fullName (dlg a)) (role (dlg a))
                           (profile_of pI (dlg a)),
                    Toast (if isLogin then LoginFailed (message res)
                           else RegistrationFailed (message res))]\<rparr>
         | Throws e \<Rightarrow>
             a\<lparr>dlg := (dlg a)\<lparr>isLoading := False\<rparr>,
               trace := trace a @
                 [if isLogin then CallSendOTP (email (dlg a))
                  else CallRegisterUser (email (dlg a)) (fullName (dlg a)) (role (dlg a))
                         (profile_of pI (dlg a)),
                  if isLogin then ConsoleError ''Send OTP error:'' e
                  else ConsoleError ''Registration error:'' e,
                  Toast (if isLogin then LoginFailed ''Failed to send OTP. Please try again.''
                         else RegistrationFailed ''Registration failed. Please try again.'')]\<rparr>))"
  by (cases out; cases isLogin) (simp_all add: send_defs prog_defs Let_def)

lemma handleSendOTP_success:
  assumes "email (dlg a) \<noteq> []" "isLogin \<or> fullName (dlg a) \<noteq> []" "success res"
  shows "exec (handleSendOTP pI isLogin (Returns res)) a =
     a\<lparr>dlg := (dlg a)\<lparr>step := Otp, isLoading := False, timer := 60,
                       intervals := Suc (intervals (dlg a))\<rparr>,
       trace := trace a @
         [if isLogin then CallSendOTP (email (dlg a))
          else CallRegisterUser (email (dlg a)) (fullName (dlg a)) (role (dlg a))
                 (profile_of pI (dlg a)),
          Toast (if isLogin then OTPSent else RegistrationSuccessful)]\<rparr>"
  using assms by (auto simp add: handleSendOTP_exec)

lemma handleSendOTP_failure:
  assumes "email (dlg a) \<noteq> []" "isLogin \<or> fullName (dlg a) \<noteq> []" "\<not> success res"
  shows "exec (handleSendOTP pI isLogin (Returns res)) a =
     a\<lparr>dlg := (dlg a)\<lparr>isLoading := False\<rparr>,
       trace := trace a @
         [if isLogin then CallSendOTP (email (dlg a))
          else CallRegisterUser (email (dlg a)) (fullName (dlg a)) (role (dlg a))
                 (profile_of pI (dlg a)),
          Toast (if isLogin then LoginFailed (message res)
                 else RegistrationFailed (message res))]\<rparr>"
  using assms by (auto simp add: handleSendOTP_exec)

lemma handleSendOTP_throws:
  assumes "email (dlg a) \<noteq> []" "isLogin \<or> fullName (dlg a) \<noteq> []"
  shows "exec (handleSendOTP pI isLogin (Throws e)) a =
     a\<lparr>dlg := (dlg a)\<lparr>isLoading := False\<rparr>,
       trace := trace a @
         [if isLogin then CallSendOTP (email (dlg a))
          else CallRegisterUser (email (dlg a)) (fullName (dlg a)) (role (dlg a))
                 (profile_of pI (dlg a)),
          if isLogin then ConsoleError ''Send OTP error:'' e
          else ConsoleError ''Registration error:'' e,
          Toast (if isLogin then LoginFailed ''Failed to send OTP. Please try again.''
                 else RegistrationFailed ''Registration failed. Please try again.'')]\<rparr>"
  using assms by (auto simp add: handleSendOTP_exec)

lemma handleSendOTP_keeps_draft:
  "email (dlg (exec (handleSendOTP pI isLogin out) a)) = email (dlg a) \<and>
   fullName (dlg (exec (handleSendOTP pI isLogin out) a)) = fullName (dlg a) \<and>
   role (dlg (exec (handleSendOTP pI isLogin out) a)) = role (dlg a) \<and>
   otp (dlg (exec (handleSendOTP pI isLogin out) a)) = otp (dlg a) \<and>
   profile_of pI' (dlg (exec (handleSendOTP pI isLogin out) a)) = profile_of pI' (dlg a)"
  by (cases out) (simp_all add: handleSendOTP_exec profile_of_def)

text \<open>The interval callback touches the timer and the count of live intervals only.\<close>

lemma tick_upd:
  "tick (x\<lparr>dlg := (dlg x)\<lparr>timer := t, intervals := i\<rparr>\<rparr>) =
     x\<lparr>dlg := (dlg x)\<lparr>timer := (if i = 0 then t else if t \<le> 1 then 0 else t - 1),
                        intervals := (if i = 0 then 0 else if t \<le> 1 then i - 1 else i)\<rparr>\<rparr>"
  by (simp add: tick_def Let_def)

lemma tick_pow_shape:
  "\<exists>t i. (tick ^^ n) x = x\<lparr>dlg := (dlg x)\<lparr>timer := t, intervals := i\<rparr>\<rparr>"
proof (induction n)
  case 0
  have "x = x\<lparr>dlg := (dlg x)\<lparr>timer := timer (dlg x), intervals := intervals (dlg x)\<rparr>\<rparr>"
    by simp
  then show ?case by (metis funpow_0)
next
  case (Suc n)
  then obtain t i where s: "(tick ^^ n) x = x\<lparr>dlg := (dlg x)\<lparr>timer := t, intervals := i\<rparr>\<rparr>"
    by blast
  have "(tick ^^ Suc n) x = tick (x\<lparr>dlg := (dlg x)\<lparr>timer := t, intervals := i\<rparr>\<rparr>)"
    using s by simp
  then show ?case
    unfolding tick_upd by blast
qed


text \<open>Every write to the code cell stores sanitised text: the \<^verbatim>\<open>onChange\<close> of the
  field stores what is left of the typed text, the other writers store the empty
  string, and the remaining handlers leave the cell alone.\<close>

lemma otp_writers:
  "otp (initial_dialog t) = take 6 (filter is_digit []) \<and>
   otp (dlg (exec (otp_onChange v) a)) = take 6 (filter is_digit v) \<and>
   otp (dlg (exec resetForm a)) = take 6 (filter is_digit []) \<and>
   otp (dlg (exec handleBackToForm a)) = take 6 (filter is_digit []) \<and>
   otp (dlg (tick a)) = otp (dlg a) \<and>
   otp (dlg (exec (handleSendOTP pI isLogin out) a)) = otp (dlg a)"
  by (simp add: initial_dialog_def onChange_exec resetForm_exec back_exec tick_def Let_def
      handleSendOTP_keeps_draft)

section \<open>Session context: claims\<close>

text \<open>
  Claim C1, as amended. \<^verbatim>\<open>logout\<close> makes the backend logout call first. When that
  call returns, the session user is then cleared (set to null). When it throws, the
  exception is caught and logged. In both cases \<^verbatim>\<open>logout\<close> completes without an
  exception reaching its caller.
\<close>

theorem logout_clears_user_after_backend_returns:
  "result (logout out) a = Inr () \<and>
   (out = Returns () \<longrightarrow>
      user (auth (exec (logout out) a)) = None \<and>
      trace (exec (logout out) a) = trace a @ [CallLogout]) \<and>
   (\<forall>e. out = Throws e \<longrightarrow>
      trace (exec (logout out) a) = trace a @ [CallLogout, ConsoleError ''Logout error:'' e])"
  by (cases out) (simp_all add: logout_def prog_defs)

theorem logout_clears_user_after_backend_returns_witness:
  "user (auth logged_in) = Some dr_x \<and>
   result (logout (Returns ())) logged_in = Inr () \<and>
   user (auth (exec (logout (Returns ())) logged_in)) = None \<and>
   trace (exec (logout (Returns ())) logged_in) = [CallLogout]"
  using logout_clears_user_after_backend_returns [of "Returns ()" logged_in]
  by (simp add: scenario_defs)

text \<open>
  As first stated, C1 has the session user cleared also when the backend call throws.
  In the source \<^verbatim>\<open>setUser(null)\<close> stands inside the \<^verbatim>\<open>try\<close> block after the awaited
  call, so a rejected call skips it: the user of a logged-in session is still there.
\<close>

theorem logout_keeps_user_when_backend_throws:
  "user (auth (exec (logout (Throws ''offline'')) logged_in)) = Some dr_x"
  by (simp add: logout_def prog_defs scenario_defs)

text \<open>
  Claim C4. In each of \<^verbatim>\<open>registerUser\<close>, \<^verbatim>\<open>verifyRegistration\<close>, \<^verbatim>\<open>sendOTP\<close>,
  \<^verbatim>\<open>verifyOTPAndLogin\<close>, \<^verbatim>\<open>logout\<close>, \<^verbatim>\<open>refreshSession\<close> and \<^verbatim>\<open>updateProfile\<close>, a
  backend call that throws is caught: the operations that return a result return
  \<^verbatim>\<open>{ success: false, message }\<close> with the operation's fixed message, and whatever
  the backend does, no operation ends in an exception.
\<close>

theorem session_operations_catch_backend_exceptions:
  "result (registerUser em fn r p (Throws e)) a
     = Inr (failure ''Registration failed. Please try again.'') \<and>
   result (verifyRegistration em code (Throws e) st) a
     = Inr (failure ''Verification failed. Please try again.'') \<and>
   result (sendOTP em (Throws e)) a
     = Inr (failure ''Failed to send OTP. Please try again.'') \<and>
   result (verifyOTPAndLogin em code (Throws e)) a
     = Inr (failure ''Login failed. Please try again.'') \<and>
   result (logout (Throws e)) a = Inr () \<and>
   result (refreshSession (Throws e)) a = Inr () \<and>
   (user (auth a) = Some u \<and> user_id u \<noteq> [] \<longrightarrow>
      result (updateProfile upd (Throws e) out_refresh) a
        = Inr (failure ''Failed to update profile. Please try again.'')) \<and>
   (\<exists>res. result (registerUser em fn r p out) a = Inr res) \<and>
   (\<exists>res. result (verifyRegistration em code out st) a = Inr res) \<and>
   (\<exists>res. result (sendOTP em out) a = Inr res) \<and>
   (\<exists>res. result (verifyOTPAndLogin em code out) a = Inr res) \<and>
   result (logout out_logout) a = Inr () \<and>
   result (refreshSession out_refresh) a = Inr () \<and>
   (\<exists>res. result (updateProfile upd out out_refresh) a = Inr res)"
  apply (intro conjI)
  apply (simp_all add: registerUser_def verifyRegistration_def sendOTP_def verifyOTPAndLogin_def
      logout_def refreshSession_def updateProfile_def prog_defs failure_def
      split: outcome.splits option.splits prod.splits sum.splits)
  done

theorem session_operations_catch_backend_exceptions_witness:
  "user (auth logged_in) = Some dr_x \<and> user_id dr_x \<noteq> [] \<and>
   result (updateProfile [(''phone'', JStr ''555'')] (Throws ''offline'') (Returns None)) logged_in
     = Inr \<lparr>success = False, message = ''Failed to update profile. Please try again.'',
            res_user = None, res_token = None\<rparr> \<and>
   result (sendOTP ''a@b.com'' (Throws ''offline'')) logged_in
     = Inr \<lparr>success = False, message = ''Failed to send OTP. Please try again.'',
            res_user = None, res_token = None\<rparr>"
  using session_operations_catch_backend_exceptions
    [where em = "''a@b.com''" and e = "''offline''" and a = logged_in and u = dr_x
       and upd = "[(''phone'', JStr ''555'')]" and out_refresh = "Returns None"]
  by (simp add: scenario_defs failure_def)

text \<open>
  Claim C10. Whatever the arguments and whatever the backend does (accept, refuse or
  throw), \<^verbatim>\<open>registerUser\<close> and \<^verbatim>\<open>sendOTP\<close> leave the session context (user and
  loading flag) and the stored token as they were; they do not touch the dialog either.
\<close>

theorem registerUser_sendOTP_leave_session_unchanged:
  "auth (exec (registerUser em fn r p out) a) = auth a \<and>
   localStorage (exec (registerUser em fn r p out) a) = localStorage a \<and>
   dlg (exec (registerUser em fn r p out) a) = dlg a \<and>
   auth (exec (sendOTP em out) a) = auth a \<and>
   localStorage (exec (sendOTP em out) a) = localStorage a \<and>
   dlg (exec (sendOTP em out) a) = dlg a"
  by (cases out) (simp_all add: registerUser_def sendOTP_def prog_defs)

theorem registerUser_sendOTP_leave_session_unchanged_witness:
  "user (auth (exec (registerUser ''d@x.com'' ''Dr. X'' Doctor [] (Returns accepted)) logged_in))
     = Some dr_x \<and>
   user (auth (exec (sendOTP ''a@b.com'' (Throws ''offline'')) logged_in)) = Some dr_x"
  using registerUser_sendOTP_leave_session_unchanged
    [where em = "''d@x.com''" and fn = "''Dr. X''" and r = Doctor and p = "[]"
       and out = "Returns accepted" and a = logged_in]
    registerUser_sendOTP_leave_session_unchanged
    [where em = "''a@b.com''" and out = "Throws ''offline''" and a = logged_in]
  by (simp add: scenario_defs)

text \<open>
  Claim C5, as amended. When the backend result of \<^verbatim>\<open>verifyRegistration\<close> has success
  true and carries a user and a non-empty token, the session user is set to that user;
  when the write to the browser's storage completes, the token is stored under
  \<^verbatim>\<open>healthvault_token\<close> and the result is returned unchanged. In the doctor
  registration scenario (register tab, role doctor, a six-character code, the write
  completes) \<^verbatim>\<open>handleVerifyOTP\<close> then makes that one backend call, closes the
  dialog and schedules the redirect to the doctor dashboard: there is no second login
  call.
\<close>

theorem verifyRegistration_establishes_session:
  assumes "success res" "res_user res = Some u" "res_token res = Some t" "t \<noteq> []"
  shows "user (auth (exec (verifyRegistration em code (Returns res) st) a)) = Some u \<and>
     result (verifyRegistration em code (Returns res) (Returns ())) a = Inr res \<and>
     localStorage (exec (verifyRegistration em code (Returns res) (Returns ())) a)
         ''healthvault_token'' = Some t \<and>
     (activeTab (dlg a) = Register \<and> role (dlg a) = Doctor \<and> length (otp (dlg a)) = 6 \<longrightarrow>
        user (auth (exec (handleVerifyOTP (Returns res) (Returns ())) a)) = Some u \<and>
        localStorage (exec (handleVerifyOTP (Returns res) (Returns ())) a)
            ''healthvault_token'' = Some t \<and>
        trace (exec (handleVerifyOTP (Returns res) (Returns ())) a) = trace a @
          [CallVerifyRegistration (email (dlg a)) (otp (dlg a)), Toast WelcomeRegistered,
           OnOpenChange False, SetTimeout (RouterPush ''/doctor/dashboard'') 1000])"
proof -
  have set_user: "user (auth (exec (verifyRegistration em code (Returns res) st) a)) = Some u"
    using assms by (cases st) (simp_all add: verifyRegistration_def prog_defs)
  show ?thesis
    using assms set_user by (simp add: verify_defs prog_defs Let_def)
qed

theorem verifyRegistration_establishes_session_witness:
  "success accepted \<and> res_user accepted = Some dr_x \<and> res_token accepted = Some ''tok-1'' \<and>
   activeTab (dlg register_otp) = Register \<and> role (dlg register_otp) = Doctor \<and>
   length (otp (dlg register_otp)) = 6 \<and>
   user (auth (exec (verifyRegistration ''d@x.com'' ''000000'' (Returns accepted)
                       (Throws ''QuotaExceededError'')) register_otp)) = Some dr_x \<and>
   user (auth (exec (handleVerifyOTP (Returns accepted) (Returns ())) register_otp)) = Some dr_x \<and>
   localStorage (exec (handleVerifyOTP (Returns accepted) (Returns ())) register_otp)
       ''healthvault_token'' = Some ''tok-1'' \<and>
   trace (exec (handleVerifyOTP (Returns accepted) (Returns ())) register_otp) =
     [CallVerifyRegistration ''d@x.com'' ''000000'', Toast WelcomeRegistered,
      OnOpenChange False, SetTimeout (RouterPush ''/doctor/dashboard'') 1000]"
proof -
  have h: "success accepted" "res_user accepted = Some dr_x"
    "res_token accepted = Some ''tok-1''" "''tok-1'' \<noteq> []"
    by (simp_all add: scenario_defs)
  have s: "activeTab (dlg register_otp) = Register \<and> role (dlg register_otp) = Doctor \<and>
     length (otp (dlg register_otp)) = 6 \<and> email (dlg register_otp) = ''d@x.com'' \<and>
     otp (dlg register_otp) = ''000000'' \<and> trace register_otp = []"
    by (simp add: scenario_defs)
  show ?thesis
    using verifyRegistration_establishes_session
      [OF h, where em = "''d@x.com''" and code = "''000000''" and a = register_otp
         and st = "Throws ''QuotaExceededError''"] h s
    by simp
qed

text \<open>
  As first stated, C5 has the token persisted and the result returned unchanged for
  every successful backend result with a user and a token. The write
  \<^verbatim>\<open>localStorage.setItem\<close> stands inside the \<^verbatim>\<open>try\<close> block after \<^verbatim>\<open>setUser\<close>: when
  the browser refuses it, the user is already set, nothing is stored and the \<^verbatim>\<open>catch\<close>
  returns the generic failure instead of the backend's result. Moreover the source
  tests \<^verbatim>\<open>result.token\<close> for truthiness and the empty string is falsy: a successful
  result with a user and the token \<^verbatim>\<open>""\<close> sets no user and stores nothing.
\<close>

theorem verifyRegistration_token_not_always_persisted:
  "success accepted \<and> res_user accepted = Some dr_x \<and> res_token accepted = Some ''tok-1'' \<and>
   user (auth (exec (verifyRegistration ''d@x.com'' ''000000'' (Returns accepted)
                       (Throws ''QuotaExceededError'')) (fresh_app Register))) = Some dr_x \<and>
   localStorage (exec (verifyRegistration ''d@x.com'' ''000000'' (Returns accepted)
                         (Throws ''QuotaExceededError'')) (fresh_app Register))
       ''healthvault_token'' = None \<and>
   result (verifyRegistration ''d@x.com'' ''000000'' (Returns accepted)
             (Throws ''QuotaExceededError'')) (fresh_app Register)
     = Inr (failure ''Verification failed. Please try again.'') \<and>
   failure ''Verification failed. Please try again.'' \<noteq> accepted \<and>
   success accepted_empty_token \<and> res_user accepted_empty_token = Some dr_x \<and>
   res_token accepted_empty_token = Some [] \<and>
   user (auth (exec (verifyRegistration ''d@x.com'' ''000000'' (Returns accepted_empty_token)
                       (Returns ())) (fresh_app Register))) = None \<and>
   localStorage (exec (verifyRegistration ''d@x.com'' ''000000'' (Returns accepted_empty_token)
                         (Returns ())) (fresh_app Register))
       ''healthvault_token'' = None"
  by (simp add: verifyRegistration_def prog_defs scenario_defs failure_def)

section \<open>Authentication dialog: claims\<close>

text \<open>
  Claim C2, as amended. \<^verbatim>\<open>resetForm\<close> sets the wizard step to \<open>form\<close> and clears
  email, full name, phone, date of birth, address, specialization, license number,
  experience, the code and the cooldown timer to their initial values; it changes
  neither the session context nor the stored token, and it calls nobody. The dialog
  runs it when it closes itself after a successful verification: whenever
  \<^verbatim>\<open>handleVerifyOTP\<close> closes the dialog, the cells are those \<^verbatim>\<open>resetForm\<close> leaves,
  with the loading flag off, and it does close it when the backend accepts a
  six-character code and the token is stored. A close requested by the user is the
  parent's callback alone: it leaves the cells of the dialog and the session context
  as they are.
\<close>

theorem resetForm_clears_draft:
  "step (dlg (exec resetForm a)) = Form \<and>
   email (dlg (exec resetForm a)) = [] \<and>
   fullName (dlg (exec resetForm a)) = [] \<and>
   phone (dlg (exec resetForm a)) = [] \<and>
   dateOfBirth (dlg (exec resetForm a)) = [] \<and>
   address (dlg (exec resetForm a)) = [] \<and>
   specialization (dlg (exec resetForm a)) = [] \<and>
   licenseNumber (dlg (exec resetForm a)) = [] \<and>
   experience (dlg (exec resetForm a)) = [] \<and>
   otp (dlg (exec resetForm a)) = [] \<and>
   timer (dlg (exec resetForm a)) = 0 \<and>
   auth (exec resetForm a) = auth a \<and>
   localStorage (exec resetForm a) = localStorage a \<and>
   trace (exec resetForm a) = trace a \<and>
   (OnOpenChange False \<in> set (emitted a (exec (handleVerifyOTP out st) a)) \<longrightarrow>
      dlg (exec (handleVerifyOTP out st) a) = (dlg (exec resetForm a))\<lparr>isLoading := False\<rparr>) \<and>
   (length (otp (dlg a)) = 6 \<and> success res \<longrightarrow>
      OnOpenChange False \<in> set (emitted a (exec (handleVerifyOTP (Returns res) (Returns ())) a))) \<and>
   dlg (exec (onOpenChange False) a) = dlg a \<and>
   auth (exec (onOpenChange False) a) = auth a \<and>
   localStorage (exec (onOpenChange False) a) = localStorage a"
proof -
  let ?closed = "\<lambda>x y. OnOpenChange False \<in> set (emitted a (exec (handleVerifyOTP x y) a))"
  let ?reset = "\<lambda>x y. dlg (exec (handleVerifyOTP x y) a) = (dlg (exec resetForm a))\<lparr>isLoading := False\<rparr>"
  have blocked: "\<not> ?closed out st" if "length (otp (dlg a)) \<noteq> 6"
    using that by (simp add: handleVerifyOTP_def prog_defs emitted_def)
  have login: "(?closed out st \<longrightarrow> ?reset out st) \<and> (success res \<longrightarrow> ?closed (Returns res) (Returns ()))"
    if "length (otp (dlg a)) = 6" "activeTab (dlg a) = Login"
  proof (cases out)
    case (Returns r)
    show ?thesis
      using that unfolding Returns
      by (cases "res_user r"; cases "res_user res")
         (simp_all add: verify_defs prog_defs emitted_def Let_def)
  next
    case (Throws e)
    show ?thesis
      using that unfolding Throws
      by (cases "res_user res") (simp_all add: verify_defs prog_defs emitted_def Let_def)
  qed
  have register_closes: "success res \<longrightarrow> ?closed (Returns res) (Returns ())"
    if "length (otp (dlg a)) = 6" "activeTab (dlg a) = Register"
    using that
    by (cases "res_user res"; cases "res_token res")
       (simp_all add: verify_defs prog_defs emitted_def Let_def)
  have register: "?closed out st \<longrightarrow> ?reset out st"
    if "length (otp (dlg a)) = 6" "activeTab (dlg a) = Register"
  proof (cases out)
    case (Returns r)
    show ?thesis
      using that unfolding Returns
      by (cases "res_user r"; cases "res_token r"; cases st)
         (simp_all add: verify_defs prog_defs emitted_def Let_def)
  next
    case (Throws e)
    show ?thesis
      using that unfolding Throws
      by (simp add: verify_defs prog_defs emitted_def Let_def)
  qed
  have self_close: "(?closed out st \<longrightarrow> ?reset out st) \<and>
     (length (otp (dlg a)) = 6 \<and> success res \<longrightarrow> ?closed (Returns res) (Returns ()))"
  proof (cases "length (otp (dlg a)) = 6")
    case True
    then show ?thesis
      using login register register_closes by (cases "activeTab (dlg a)") simp_all
  next
    case False
    then show ?thesis using blocked by simp
  qed
  show ?thesis
    using self_close by (simp add: resetForm_exec onOpenChange_exec)
qed

theorem resetForm_clears_draft_witness:
  "length (otp (dlg register_otp)) = 6 \<and> success accepted \<and>
   email (dlg register_otp) = ''d@x.com'' \<and> timer (dlg register_otp) = 42 \<and>
   email (dlg (exec resetForm register_otp)) = [] \<and>
   timer (dlg (exec resetForm register_otp)) = 0 \<and>
   OnOpenChange False \<in>
     set (emitted register_otp (exec (handleVerifyOTP (Returns accepted) (Returns ())) register_otp)) \<and>
   step (dlg (exec (handleVerifyOTP (Returns accepted) (Returns ())) register_otp)) = Form \<and>
   otp (dlg (exec (handleVerifyOTP (Returns accepted) (Returns ())) register_otp)) = []"
proof -
  have h: "length (otp (dlg register_otp)) = 6 \<and> success accepted \<and>
     email (dlg register_otp) = ''d@x.com'' \<and> timer (dlg register_otp) = 42"
    by (simp add: scenario_defs)
  show ?thesis
    using resetForm_clears_draft [of register_otp "Returns accepted" "Returns ()" accepted] h
    by (simp add: resetForm_exec)
qed

text \<open>
  As first stated, C2 lists the role among the cleared fields and has the step reset
  on dialog close. \<^verbatim>\<open>resetForm\<close> has no \<^verbatim>\<open>setRole\<close> call: a draft with role doctor
  still has it afterwards, while the initial value of the cell is patient. And when
  the user closes the dialog in the \<open>otp\<close> step, only the parent's \<^verbatim>\<open>onOpenChange\<close>
  runs: the step is still \<open>otp\<close> and the email, the code and the timer are still
  there.
\<close>

theorem reset_keeps_role_and_user_close_keeps_cells:
  "role (dlg register_otp) = Doctor \<and>
   role (initial_dialog Register) = Patient \<and>
   role (dlg (exec resetForm register_otp)) = Doctor \<and>
   step (dlg register_otp) = Otp \<and>
   trace (exec (onOpenChange False) register_otp) = [OnOpenChange False] \<and>
   step (dlg (exec (onOpenChange False) register_otp)) = Otp \<and>
   email (dlg (exec (onOpenChange False) register_otp)) = ''d@x.com'' \<and>
   otp (dlg (exec (onOpenChange False) register_otp)) = ''000000'' \<and>
   timer (dlg (exec (onOpenChange False) register_otp)) = 42"
  by (simp add: resetForm_exec onOpenChange_exec scenario_defs)

text \<open>
  Claim C3. The \<^verbatim>\<open>onChange\<close> of the code field stores the typed text with every
  non-digit removed, cut to six characters. For a code stored that way,
  \<^verbatim>\<open>handleVerifyOTP\<close> calls the backend if and only if the code is exactly six
  digits, and then it makes the verification call of the active tab with the email
  and the code. Otherwise it makes no backend call and changes nothing but to emit
  the notification, so the dialog stays in the step it was in.
\<close>

theorem verify_calls_backend_iff_six_digits:
  assumes "otp (dlg a) = take 6 (filter is_digit v)"
  shows "otp (dlg (exec (otp_onChange v) a0)) = take 6 (filter is_digit v) \<and>
     (backend_calls (exec (handleVerifyOTP out st) a) \<noteq> backend_calls a
        \<longleftrightarrow> six_digits (otp (dlg a))) \<and>
     (six_digits (otp (dlg a)) \<longrightarrow>
        backend_calls (exec (handleVerifyOTP out st) a) =
          backend_calls a @
            [if activeTab (dlg a) = Register
             then CallVerifyRegistration (email (dlg a)) (otp (dlg a))
             else CallVerifyOTPAndLogin (email (dlg a)) (otp (dlg a))]) \<and>
     (\<not> six_digits (otp (dlg a)) \<longrightarrow>
        exec (handleVerifyOTP out st) a =
          a\<lparr>trace := trace a @ [Toast (InvalidOTP ''Please enter a valid 6-digit OTP.'')]\<rparr> \<and>
        step (dlg (exec (handleVerifyOTP out st) a)) = step (dlg a))"
proof -
  have "list_all is_digit (otp (dlg a))"
    unfolding assms list_all_iff by (auto dest: in_set_takeD)
  then have six: "six_digits (otp (dlg a)) \<longleftrightarrow> length (otp (dlg a)) = 6"
    by (simp add: six_digits_def)
  have no: "exec (handleVerifyOTP out st) a =
          a\<lparr>trace := trace a @ [Toast (InvalidOTP ''Please enter a valid 6-digit OTP.'')]\<rparr>"
    if "length (otp (dlg a)) \<noteq> 6"
    using that by (simp add: handleVerifyOTP_def prog_defs)
  have yes: "backend_calls (exec (handleVerifyOTP out st) a) =
          backend_calls a @
            [if activeTab (dlg a) = Register
             then CallVerifyRegistration (email (dlg a)) (otp (dlg a))
             else CallVerifyOTPAndLogin (email (dlg a)) (otp (dlg a))]"
    if "length (otp (dlg a)) = 6"
  proof (cases "activeTab (dlg a)")
    case Login
    show ?thesis
    proof (cases out)
      case (Returns res)
      show ?thesis
        using that Login unfolding Returns
        by (cases "res_user res"; cases "user (auth a)")
           (simp_all add: verify_defs prog_defs backend_calls_def Let_def)
    next
      case (Throws e)
      show ?thesis
        using that Login unfolding Throws
        by (simp add: verify_defs prog_defs backend_calls_def Let_def)
    qed
  next
    case Register
    show ?thesis
    proof (cases out)
      case (Returns res)
      show ?thesis
        using that Register unfolding Returns
        by (cases "res_user res"; cases "res_token res"; cases st)
           (simp_all add: verify_defs prog_defs backend_calls_def Let_def)
    next
      case (Throws e)
      show ?thesis
        using that Register unfolding Throws
        by (simp add: verify_defs prog_defs backend_calls_def Let_def)
    qed
  qed
  have stored: "otp (dlg (exec (otp_onChange v) a0)) = take 6 (filter is_digit v)"
    by (simp add: onChange_exec)
  show ?thesis
  proof (cases "length (otp (dlg a)) = 6")
    case True
    then show ?thesis using stored six yes by simp
  next
    case False
    then show ?thesis using stored six no [OF False] by (simp add: backend_calls_def)
  qed
qed

theorem verify_calls_backend_iff_six_digits_witness:
  "otp (dlg register_otp) = take 6 (filter is_digit ''0a00-0007'') \<and>
   six_digits (otp (dlg register_otp)) \<and>
   backend_calls (exec (handleVerifyOTP (Returns accepted) (Returns ())) register_otp)
     = [CallVerifyRegistration ''d@x.com'' ''000000''] \<and>
   otp (dlg (exec (otp_onChange ''12x4'') register_otp)) = ''124'' \<and>
   \<not> six_digits ''124'' \<and>
   backend_calls (exec (handleVerifyOTP (Returns accepted) (Returns ())) (exec (otp_onChange ''12x4'') register_otp))
     = [] \<and>
   step (dlg (exec (handleVerifyOTP (Returns accepted) (Returns ())) (exec (otp_onChange ''12x4'') register_otp)))
     = Otp"
proof -
  have h1: "otp (dlg register_otp) = take 6 (filter is_digit ''0a00-0007'')"
    by (simp add: scenario_defs is_digit_def)
  have s1: "trace register_otp = [] \<and>
     activeTab (dlg register_otp) = Register \<and> email (dlg register_otp) = ''d@x.com'' \<and>
     otp (dlg register_otp) = ''000000''"
    by (simp add: scenario_defs)
  let ?b = "exec (otp_onChange ''12x4'') register_otp"
  have h2: "otp (dlg ?b) = take 6 (filter is_digit ''12x4'')"
    by (simp add: onChange_exec)
  have s2: "otp (dlg ?b) = ''124'' \<and> trace ?b = [] \<and> step (dlg ?b) = Otp"
    by (simp add: onChange_exec scenario_defs is_digit_def)
  show ?thesis
    using verify_calls_backend_iff_six_digits [OF h1, of register_otp "Returns accepted" "Returns ()"]
      verify_calls_backend_iff_six_digits [OF h2, of register_otp "Returns accepted" "Returns ()"] h1 s1 s2
    by (simp add: is_digit_def six_digits_def backend_calls_def)
qed



text \<open>
  Claim C7. A registration attempt that passes the validation makes exactly one
  backend call, \<^verbatim>\<open>registerUser\<close>, with the email, the full name, the role and a
  profile object whose fields are those of the selected role: phone, dateOfBirth and
  address for a patient; phone, specialization, licenseNumber and experience (a number)
  for a doctor. The object never has a patient-only field together with a doctor-only
  field.
\<close>

theorem registration_profile_matches_role:
  assumes "email (dlg a) \<noteq> []" "fullName (dlg a) \<noteq> []"
  shows "backend_calls (exec (handleSendOTP pI False out) a) =
       backend_calls a @
         [CallRegisterUser (email (dlg a)) (fullName (dlg a)) (role (dlg a)) (profile_of pI (dlg a))] \<and>
     (role (dlg a) = Patient \<longrightarrow>
        profile_of pI (dlg a) =
          [(''phone'', JStr (phone (dlg a))), (''dateOfBirth'', JStr (dateOfBirth (dlg a))),
           (''address'', JStr (address (dlg a)))]) \<and>
     (role (dlg a) = Doctor \<longrightarrow>
        (\<exists>n. profile_of pI (dlg a) =
          [(''phone'', JStr (phone (dlg a))), (''specialization'', JStr (specialization (dlg a))),
           (''licenseNumber'', JStr (licenseNumber (dlg a))), (''experience'', JNum n)])) \<and>
     \<not> (set (map fst (profile_of pI (dlg a))) \<inter> {''dateOfBirth'', ''address''} \<noteq> {} \<and>
        set (map fst (profile_of pI (dlg a))) \<inter>
          {''specialization'', ''licenseNumber'', ''experience''} \<noteq> {})"
proof -
  have call: "backend_calls (exec (handleSendOTP pI False out) a) =
       backend_calls a @
         [CallRegisterUser (email (dlg a)) (fullName (dlg a)) (role (dlg a)) (profile_of pI (dlg a))]"
    using assms
    by (cases out) (simp_all add: handleSendOTP_exec backend_calls_def)
  have "role (dlg a) = Patient \<or> role (dlg a) = Doctor"
    by (cases "role (dlg a)") simp_all
  then show ?thesis
    using call by (auto simp add: profile_of_def)
qed

theorem registration_profile_matches_role_witness:
  "email (dlg register_form) \<noteq> [] \<and> fullName (dlg register_form) \<noteq> [] \<and>
   role (dlg register_form) = Doctor \<and>
   backend_calls (exec (handleSendOTP no_parse False (Returns accepted)) register_form) =
     [CallRegisterUser ''d@x.com'' ''Dr. X'' Doctor
        [(''phone'', JStr []), (''specialization'', JStr []), (''licenseNumber'', JStr []),
         (''experience'', JNum 0)]]"
proof -
  have h: "email (dlg register_form) \<noteq> []" "fullName (dlg register_form) \<noteq> []"
    by (simp_all add: scenario_defs)
  have s: "role (dlg register_form) = Doctor \<and> backend_calls register_form = [] \<and>
     email (dlg register_form) = ''d@x.com'' \<and> fullName (dlg register_form) = ''Dr. X'' \<and>
     profile_of no_parse (dlg register_form) =
       [(''phone'', JStr []), (''specialization'', JStr []), (''licenseNumber'', JStr []),
        (''experience'', JNum 0)]"
    by (simp add: scenario_defs backend_calls_def profile_of_def)
  show ?thesis
    using registration_profile_matches_role [OF h, of no_parse "Returns accepted"] h s
    by simp
qed

text \<open>
  Claim C8. While the cooldown timer is above 0, \<^verbatim>\<open>handleResendOTP\<close> does nothing:
  no backend call, no notification, no change of state. When the timer is 0 it is
  \<^verbatim>\<open>handleSendOTP\<close> run for the active tab on the current cells, so that the backend
  call carries the email and the form fields entered before.
\<close>

theorem resend_is_noop_during_cooldown:
  "(0 < timer (dlg a) \<longrightarrow> handleResendOTP pI out a = (Inr (), a)) \<and>
   (timer (dlg a) = 0 \<longrightarrow>
      handleResendOTP pI out a = handleSendOTP pI (activeTab (dlg a) = Login) out a) \<and>
   (timer (dlg a) = 0 \<and> email (dlg a) \<noteq> [] \<and> activeTab (dlg a) = Login \<longrightarrow>
      backend_calls (exec (handleResendOTP pI out) a) =
        backend_calls a @ [CallSendOTP (email (dlg a))]) \<and>
   (timer (dlg a) = 0 \<and> email (dlg a) \<noteq> [] \<and> activeTab (dlg a) = Register \<and>
    fullName (dlg a) \<noteq> [] \<longrightarrow>
      backend_calls (exec (handleResendOTP pI out) a) =
        backend_calls a @
          [CallRegisterUser (email (dlg a)) (fullName (dlg a)) (role (dlg a))
             (profile_of pI (dlg a))])"
proof -
  have r: "exec (handleResendOTP pI out) a = exec (handleSendOTP pI (activeTab (dlg a) = Login) out) a"
    if "timer (dlg a) = 0"
    using that by (simp add: handleResendOTP_def exec_def)
  have l: "backend_calls (exec (handleSendOTP pI True out) a) =
        backend_calls a @ [CallSendOTP (email (dlg a))]"
    if "email (dlg a) \<noteq> []"
    using that by (cases out) (simp_all add: handleSendOTP_exec backend_calls_def)
  have g: "backend_calls (exec (handleSendOTP pI False out) a) =
        backend_calls a @
          [CallRegisterUser (email (dlg a)) (fullName (dlg a)) (role (dlg a))
             (profile_of pI (dlg a))]"
    if "email (dlg a) \<noteq> []" "fullName (dlg a) \<noteq> []"
    using that by (cases out) (simp_all add: handleSendOTP_exec backend_calls_def)
  show ?thesis
    using l g by (simp add: r) (simp add: handleResendOTP_def)
qed

theorem resend_is_noop_during_cooldown_witness:
  "0 < timer (dlg register_otp) \<and>
   handleResendOTP no_parse (Returns accepted) register_otp = (Inr (), register_otp) \<and>
   timer (dlg login_form) = 0 \<and> email (dlg login_form) \<noteq> [] \<and>
   activeTab (dlg login_form) = Login \<and>
   backend_calls (exec (handleResendOTP no_parse (Returns accepted)) login_form)
     = [CallSendOTP ''a@b.com'']"
proof -
  have h: "0 < timer (dlg register_otp) \<and> timer (dlg login_form) = 0 \<and>
     email (dlg login_form) \<noteq> [] \<and> activeTab (dlg login_form) = Login \<and>
     email (dlg login_form) = ''a@b.com'' \<and> backend_calls login_form = []"
    by (simp add: scenario_defs backend_calls_def)
  show ?thesis
    using resend_is_noop_during_cooldown [of register_otp no_parse "Returns accepted"]
      resend_is_noop_during_cooldown [of login_form no_parse "Returns accepted"] h
    by simp
qed

text \<open>
  What a second \<^verbatim>\<open>handleSendOTP\<close> after \<^verbatim>\<open>handleBackToForm\<close> shares with the first,
  from a state in the \<open>form\<close> step and for the same backend outcome: the events it
  emits (the backend call with its arguments, the notifications) and every
  \<^verbatim>\<open>useState\<close> cell it leaves. The number of live interval timers is left out of the
  comparison.
\<close>

lemma back_then_initiate_same_events_and_cells:
  fixes a :: app and pI :: "string \<Rightarrow> int option" and isLogin :: bool
    and out :: "auth_result outcome" and n :: nat and v :: string
  defines "a1 \<equiv> exec (handleSendOTP pI isLogin out) a"
  defines "b \<equiv> exec handleBackToForm ((tick ^^ n) (exec (otp_onChange v) a1))"
  defines "a2 \<equiv> exec (handleSendOTP pI isLogin out) b"
  assumes "step (dlg a) = Form" "otp (dlg a) = []" "timer (dlg a) = 0"
  shows "emitted b a2 = emitted a a1 \<and>
     (dlg a2)\<lparr>intervals := 0\<rparr> = (dlg a1)\<lparr>intervals := 0\<rparr> \<and>
     step (dlg b) = Form \<and> otp (dlg b) = [] \<and> timer (dlg b) = 0 \<and>
     email (dlg b) = email (dlg a) \<and> fullName (dlg b) = fullName (dlg a) \<and>
     role (dlg b) = role (dlg a) \<and> profile_of pI (dlg b) = profile_of pI (dlg a)"
proof -
  obtain t i where s: "(tick ^^ n) (exec (otp_onChange v) a1) =
      (exec (otp_onChange v) a1)\<lparr>dlg := (dlg (exec (otp_onChange v) a1))\<lparr>timer := t, intervals := i\<rparr>\<rparr>"
    using tick_pow_shape by blast
  have b: "b = a1\<lparr>dlg := (dlg a1)\<lparr>step := Form, otp := [], timer := 0, intervals := i\<rparr>\<rparr>"
    unfolding b_def s by (simp add: back_exec onChange_exec)
  have db: "dlg b = (dlg a1)\<lparr>step := Form, otp := [], timer := 0, intervals := i\<rparr>"
    by (simp add: b)
  have same: "email (dlg b) = email (dlg a)" "fullName (dlg b) = fullName (dlg a)"
    "role (dlg b) = role (dlg a)" "profile_of pI (dlg b) = profile_of pI (dlg a)"
    using handleSendOTP_keeps_draft [of pI isLogin out a pI]
    by (auto simp add: db a1_def profile_of_def)
  have cleared: "step (dlg b) = Form \<and> otp (dlg b) = [] \<and> timer (dlg b) = 0"
    by (simp add: db)
  consider (noemail) "email (dlg a) = []"
    | (noname) "email (dlg a) \<noteq> []" "\<not> isLogin" "fullName (dlg a) = []"
    | (ok) "email (dlg a) \<noteq> []" "isLogin \<or> fullName (dlg a) \<noteq> []"
    by blast
  then have "emitted b a2 = emitted a a1 \<and> (dlg a2)\<lparr>intervals := 0\<rparr> = (dlg a1)\<lparr>intervals := 0\<rparr>"
  proof cases
    case noemail
    have 1: "a1 = a\<lparr>trace := trace a @ [Toast EmailRequired]\<rparr>"
      using noemail by (simp add: a1_def handleSendOTP_exec)
    have 2: "a2 = b\<lparr>trace := trace b @ [Toast EmailRequired]\<rparr>"
      using noemail by (simp add: a2_def handleSendOTP_exec same)
    show ?thesis
    proof
      show "emitted b a2 = emitted a a1"
        by (simp add: 2 emitted_def) (simp add: 1)
      show "(dlg a2)\<lparr>intervals := 0\<rparr> = (dlg a1)\<lparr>intervals := 0\<rparr>"
        using assms(4-6) by (intro dialog.equality) (simp_all add: 2 db 1)
    qed
  next
    case noname
    have 1: "a1 = a\<lparr>trace := trace a @ [Toast NameRequired]\<rparr>"
      using noname by (simp add: a1_def handleSendOTP_exec)
    have 2: "a2 = b\<lparr>trace := trace b @ [Toast NameRequired]\<rparr>"
      using noname by (simp add: a2_def handleSendOTP_exec same)
    show ?thesis
    proof
      show "emitted b a2 = emitted a a1"
        by (simp add: 2 emitted_def) (simp add: 1)
      show "(dlg a2)\<lparr>intervals := 0\<rparr> = (dlg a1)\<lparr>intervals := 0\<rparr>"
        using assms(4-6) by (intro dialog.equality) (simp_all add: 2 db 1)
    qed
  next
    case ok
    have okb: "email (dlg b) \<noteq> []" "isLogin \<or> fullName (dlg b) \<noteq> []"
      using ok by (simp_all add: same)
    show ?thesis
    proof (cases out)
      case (Returns res)
      show ?thesis
      proof (cases "success res")
        case True
        note 1 = handleSendOTP_success [OF ok True, of pI, folded Returns, folded a1_def]
        note 2 = handleSendOTP_success [OF okb True, of pI, folded Returns, folded a2_def]
        have 3: "emitted b a2 = emitted a a1"
          by (simp add: 2 emitted_def same) (simp add: 1)
        have 4: "(dlg a2)\<lparr>intervals := 0\<rparr> = (dlg a1)\<lparr>intervals := 0\<rparr>"
          using assms(4-6) by (intro dialog.equality) (simp_all add: 2 db 1)
        show ?thesis using 3 4 by simp
      next
        case False
        note 1 = handleSendOTP_failure [OF ok False, of pI, folded Returns, folded a1_def]
        note 2 = handleSendOTP_failure [OF okb False, of pI, folded Returns, folded a2_def]
        have 3: "emitted b a2 = emitted a a1"
          by (simp add: 2 emitted_def same) (simp add: 1)
        have 4: "(dlg a2)\<lparr>intervals := 0\<rparr> = (dlg a1)\<lparr>intervals := 0\<rparr>"
          using assms(4-6) by (intro dialog.equality) (simp_all add: 2 db 1)
        show ?thesis using 3 4 by simp
      qed
    next
      case (Throws e)
      note 1 = handleSendOTP_throws [OF ok, of pI e, folded Throws, folded a1_def]
      note 2 = handleSendOTP_throws [OF okb, of pI e, folded Throws, folded a2_def]
      have 3: "emitted b a2 = emitted a a1"
        by (simp add: 2 emitted_def same) (simp add: 1)
      have 4: "(dlg a2)\<lparr>intervals := 0\<rparr> = (dlg a1)\<lparr>intervals := 0\<rparr>"
        using assms(4-6) by (intro dialog.equality) (simp_all add: 2 db 1)
      show ?thesis using 3 4 by simp
    qed
  qed
  then show ?thesis
    using cleared same by simp
qed

text \<open>
  Claim C9 says that \<^verbatim>\<open>handleBackToForm\<close> followed by a second \<^verbatim>\<open>handleSendOTP\<close> on
  the same draft reproduces the first attempt: the same backend call and the same
  state transitions. The backend call, the notifications, the step and the timer
  value are the same. But \<^verbatim>\<open>handleBackToForm\<close> sets the timer to 0 and clears no
  interval; the interval of the first attempt is cleared only by its own callback,
  the next time it runs. When the second attempt completes before that, two
  intervals are live where the first attempt left one, the two dialog states differ,
  and the timer that the source calls a "60 second timer" and shows as
  \<^verbatim>\<open>Resend in ${timer}s\<close> loses 2 per second instead of 1.
\<close>

theorem back_then_initiate_leaves_two_intervals:
  "step (dlg register_form) = Form \<and> otp (dlg register_form) = [] \<and>
   timer (dlg register_form) = 0 \<and> intervals (dlg register_form) = 0 \<and>
   emitted register_form first_attempt =
     [CallRegisterUser ''d@x.com'' ''Dr. X'' Doctor
        [(''phone'', JStr []), (''specialization'', JStr []), (''licenseNumber'', JStr []),
         (''experience'', JNum 0)],
      Toast RegistrationSuccessful] \<and>
   emitted went_back second_attempt = emitted register_form first_attempt \<and>
   step (dlg first_attempt) = Otp \<and> step (dlg second_attempt) = Otp \<and>
   timer (dlg first_attempt) = 60 \<and> timer (dlg second_attempt) = 60 \<and>
   intervals (dlg first_attempt) = 1 \<and> intervals (dlg second_attempt) = 2 \<and>
   dlg second_attempt \<noteq> dlg first_attempt \<and>
   timer (dlg (one_second first_attempt)) = 59 \<and>
   timer (dlg (one_second second_attempt)) = 58"
proof -
  have v: "email (dlg register_form) \<noteq> []" "False \<or> fullName (dlg register_form) \<noteq> []"
    "success accepted"
    by (simp_all add: scenario_defs)
  note first = handleSendOTP_success [OF v, of no_parse, folded first_attempt_def]
  have w: "email (dlg went_back) \<noteq> []" "False \<or> fullName (dlg went_back) \<noteq> []"
    by (simp_all add: went_back_def back_exec first scenario_defs)
  note second = handleSendOTP_success [OF w v(3), of no_parse, folded second_attempt_def]
  have d1: "dlg first_attempt = (initial_dialog Register)
      \<lparr>email := ''d@x.com'', fullName := ''Dr. X'', role := Doctor, experience := ''5'',
       step := Otp, isLoading := False, timer := 60, intervals := 1\<rparr>"
    by (simp add: first scenario_defs)
  have d2: "dlg second_attempt = (initial_dialog Register)
      \<lparr>email := ''d@x.com'', fullName := ''Dr. X'', role := Doctor, experience := ''5'',
       step := Otp, isLoading := False, timer := 60, intervals := 2\<rparr>"
    by (simp add: second went_back_def back_exec first scenario_defs)
  have e1: "emitted register_form first_attempt =
     [CallRegisterUser ''d@x.com'' ''Dr. X'' Doctor
        [(''phone'', JStr []), (''specialization'', JStr []), (''licenseNumber'', JStr []),
         (''experience'', JNum 0)],
      Toast RegistrationSuccessful]"
    by (simp add: first emitted_def scenario_defs profile_of_def)
  have e2: "emitted went_back second_attempt = emitted register_form first_attempt"
    unfolding e1
    by (simp add: second emitted_def went_back_def back_exec first scenario_defs profile_of_def)
  have n: "dlg second_attempt \<noteq> dlg first_attempt"
  proof
    assume "dlg second_attempt = dlg first_attempt"
    then have "intervals (dlg second_attempt) = intervals (dlg first_attempt)" by simp
    then show False by (simp add: d1 d2)
  qed
  have s1: "timer (dlg (one_second first_attempt)) = 59"
    by (simp add: one_second_def d1 tick_def Let_def)
  have s2: "timer (dlg (one_second second_attempt)) = 58"
    by (simp add: one_second_def d2 numeral_2_eq_2 tick_def Let_def)
  have s0: "step (dlg register_form) = Form \<and> otp (dlg register_form) = [] \<and>
     timer (dlg register_form) = 0 \<and> intervals (dlg register_form) = 0"
    by (simp add: scenario_defs)
  show ?thesis
    using s0 e1 e2 n s1 s2 by (simp add: d1 d2)
qed

end
